theory Spec2Isabelle
  imports Main "HOL-Library.Word"
begin

unbundle bit_operations_syntax

section \<open>The restaurant booking tools and the streaming endpoint\<close>

text \<open>
  The notebook \<^verbatim>\<open>connecting-with-aws-services.ipynb\<close> defines three tools over one table
  of a managed key-value store (\<^verbatim>\<open>get_booking_details\<close>, \<^verbatim>\<open>delete_booking\<close>,
  \<^verbatim>\<open>create_booking\<close>); the notebook that follows it in the same file defines an HTTP
  endpoint (\<^verbatim>\<open>stream_response\<close>) that forwards the text of an agent's event stream.

  The store, the parameter service, the random UUID and the agent are outside the
  repository. Each is modelled by what the code observes of it: a call of the store
  either completes with a response or raises, and an exception is modelled by the text
  that Python's \<^verbatim>\<open>str(e)\<close> gives for it. The handlers of the source are all
  \<^verbatim>\<open>except Exception\<close>, so the exceptions of the model are the instances of
  \<^verbatim>\<open>Exception\<close>, which is what the store's client and the agent raise on a fault.
\<close>

subsection \<open>Values\<close>

type_synonym exn = string

text \<open>An attribute value of a record: a string or a number.\<close>

datatype attr = S string | N int

text \<open>A record of the table, and a key: Python dictionaries from attribute names.\<close>

type_synonym item = "string \<rightharpoonup> attr"

text \<open>
  The responses of the store, with the entries the code reads: \<^verbatim>\<open>"Item" in response\<close>
  and \<^verbatim>\<open>response["Item"]\<close>;
  \<^verbatim>\<open>response['ResponseMetadata']['HTTPStatusCode']\<close>.
\<close>

record GetItemOutput =
  Item :: "item option"

record DeleteItemOutput =
  HTTPStatusCode :: int

text \<open>
  The table handle (\<^verbatim>\<open>dynamodb.Table(...)\<close>) over a store in state \<open>'s\<close>. A read
  leaves the state as it is; a write returns the state it leaves, also when it raises.
\<close>

record 's Table =
  get_item :: "item \<Rightarrow> 's \<Rightarrow> exn + GetItemOutput"
  put_item :: "item \<Rightarrow> 's \<Rightarrow> (exn + unit) \<times> 's"
  delete_item :: "item \<Rightarrow> 's \<Rightarrow> (exn + DeleteItemOutput) \<times> 's"

subsection \<open>get_booking_details\<close>

text \<open>
  \<^verbatim>\<open>
  @tool
  def get_booking_details(booking_id: str, restaurant_name: str) -> dict:
      try:
          response = table.get_item(
              Key={"booking_id": booking_id, "restaurant_name": restaurant_name}
          )
          if "Item" in response:
              return response["Item"]
          else:
              return f"No booking found with ID {booking_id}"
      except Exception as e:
          return str(e)
  \<close>
  The function is annotated \<^verbatim>\<open>-> dict\<close> and returns either a dictionary or a string;
  the model's result type has both. \<^verbatim>\<open>table\<close> is the handle of the notebook's
  module level.
\<close>

datatype booking_details = Dict item | Str string

definition Key :: "string \<Rightarrow> string \<Rightarrow> item" where
  "Key booking_id restaurant_name =
     [''booking_id'' \<mapsto> S booking_id, ''restaurant_name'' \<mapsto> S restaurant_name]"

definition get_booking_details :: "'s Table \<Rightarrow> string \<Rightarrow> string \<Rightarrow> 's \<Rightarrow> booking_details" where
  "get_booking_details table booking_id restaurant_name s =
     (case get_item table (Key booking_id restaurant_name) s of
        Inr response \<Rightarrow>
          (case Item response of
             Some it \<Rightarrow> Dict it
           | None \<Rightarrow> Str (''No booking found with ID '' @ booking_id))
      | Inl e \<Rightarrow> Str e)"

subsection \<open>delete_booking\<close>

text \<open>
  \<^verbatim>\<open>
  @tool
  def delete_booking(booking_id: str, restaurant_name:str) -> str:
      kb_name = 'restaurant-assistant'
      dynamodb = boto3.resource('dynamodb')
      smm_client = boto3.client('ssm')
      table_name = smm_client.get_parameter(
          Name=f'{kb_name}-table-name',
          WithDecryption=False
      )
      table = dynamodb.Table(table_name["Parameter"]["Value"])
      try:
          response = table.delete_item(Key={'booking_id': booking_id, 'restaurant_name': restaurant_name})
          if response['ResponseMetadata']['HTTPStatusCode'] == 200:
              return f'Booking with ID {booking_id} deleted successfully'
          else:
              return f'Failed to delete booking with ID {booking_id}'
      except Exception as e:
          return str(e)
  \<close>
  The statements before \<^verbatim>\<open>try\<close> obtain the table handle; they are outside the
  handler, so an exception of theirs leaves the function. Their outcome is the
  argument \<open>handle\<close>: \<open>Inl e\<close> when one of them raises, \<open>Inr table\<close> otherwise. The
  result is \<open>Inl e\<close> for an exception that leaves the function and \<open>Inr msg\<close> for a
  returned string.
\<close>

definition delete_booking ::
  "exn + 's Table \<Rightarrow> string \<Rightarrow> string \<Rightarrow> 's \<Rightarrow> (exn + string) \<times> 's" where
  "delete_booking handle booking_id restaurant_name s =
     (case handle of
        Inl e \<Rightarrow> (Inl e, s)
      | Inr table \<Rightarrow>
          (case delete_item table (Key booking_id restaurant_name) s of
             (Inr response, s') \<Rightarrow>
               (if HTTPStatusCode response = 200
                then Inr (''Booking with ID '' @ booking_id @ '' deleted successfully'')
                else Inr (''Failed to delete booking with ID '' @ booking_id), s')
           | (Inl e, s') \<Rightarrow> (Inr e, s')))"

subsection \<open>create_booking\<close>

text \<open>
  \<^verbatim>\<open>str(uuid.uuid4())\<close>: the UUID is a 128-bit integer, chosen at random by the
  environment; Python prints it as 32 lower-case hexadecimal digits, grouped 8-4-4-4-12:
  \<^verbatim>\<open>
  hex = '%032x' % self.int
  return '%s-%s-%s-%s-%s' % (hex[:8], hex[8:12], hex[12:16], hex[16:20], hex[20:])
  \<close>
\<close>

definition hexdigit :: "nat \<Rightarrow> char" where
  "hexdigit n = ''0123456789abcdef'' ! (n mod 16)"

definition hex32 :: "128 word \<Rightarrow> string" where
  "hex32 u = map (\<lambda>i. hexdigit (unat (drop_bit (4 * (31 - i)) u AND 15))) [0..<32]"

definition str_UUID :: "128 word \<Rightarrow> string" where
  "str_UUID u =
     (let hex = hex32 u
      in take 8 hex @ ''-'' @ take 4 (drop 8 hex) @ ''-'' @ take 4 (drop 12 hex) @ ''-''
         @ take 4 (drop 16 hex) @ ''-'' @ drop 20 hex)"

text \<open>
  The tool's argument (\<^verbatim>\<open>ToolUse\<close>) with the entries the function reads. The input
  schema requires the five fields, so a well-formed call has them all.
\<close>

record ToolInput =
  date :: string
  hour :: string
  restaurant_name :: string
  guest_name :: string
  num_guests :: int

record ToolUse =
  toolUseId :: string
  input :: ToolInput

datatype ContentBlock = Text string

record ToolResult =
  toolUseId :: string
  status :: string
  content :: "ContentBlock list"

text \<open>
  \<^verbatim>\<open>
  def create_booking(tool: ToolUse, **kwargs: Any) -> ToolResult:
      kb_name = 'restaurant-assistant'
      dynamodb = boto3.resource('dynamodb')
      smm_client = boto3.client('ssm')
      table_name = smm_client.get_parameter(
          Name=f'{kb_name}-table-name',
          WithDecryption=False
      )
      table = dynamodb.Table(table_name["Parameter"]["Value"])

      tool_use_id = tool["toolUseId"]
      date = tool["input"]["date"]
      hour = tool["input"]["hour"]
      restaurant_name = tool["input"]["restaurant_name"]
      guest_name = tool["input"]["guest_name"]
      num_guests = tool["input"]["num_guests"]

      results = f"Creating reservation for {num_guests} people at {restaurant_name}, " \
                f"{date} at {hour} in the name of {guest_name}"
      print(results)
      try:
          booking_id = str(uuid.uuid4())[:8]
          table.put_item(
              Item={
                  'booking_id': booking_id,
                  'restaurant_name': restaurant_name,
                  'date': date,
                  'name': guest_name,
                  'hour': hour,
                  'num_guests': num_guests
              }
          )
          return {
              "toolUseId": tool_use_id,
              "status": "success",
              "content": [{"text": f"Reservation created with booking id: {booking_id}"}]
          }
      except Exception as e:
          return {
              "toolUseId": tool_use_id,
              "status": "error",
              "content": [{"text": str(e)}]
          }
  \<close>
  As in \<open>delete_booking\<close>, \<open>handle\<close> is the outcome of the statements that obtain the
  table. \<open>uuid4\<close> is the integer of the UUID that \<^verbatim>\<open>uuid.uuid4()\<close> returns in this
  call. The printed line is no part of the result and is left out.
\<close>

definition new_item :: "string \<Rightarrow> ToolInput \<Rightarrow> item" where
  "new_item booking_id inp =
     [''booking_id'' \<mapsto> S booking_id,
      ''restaurant_name'' \<mapsto> S (restaurant_name inp),
      ''date'' \<mapsto> S (date inp),
      ''name'' \<mapsto> S (guest_name inp),
      ''hour'' \<mapsto> S (hour inp),
      ''num_guests'' \<mapsto> N (num_guests inp)]"

definition create_booking ::
  "exn + 's Table \<Rightarrow> 128 word \<Rightarrow> ToolUse \<Rightarrow> 's \<Rightarrow> (exn + ToolResult) \<times> 's" where
  "create_booking handle uuid4 tool s =
     (case handle of
        Inl e \<Rightarrow> (Inl e, s)
      | Inr table \<Rightarrow>
          (let tool_use_id = ToolUse.toolUseId tool;
               booking_id = take 8 (str_UUID uuid4)
           in case put_item table (new_item booking_id (input tool)) s of
                (Inr _, s') \<Rightarrow>
                  (Inr \<lparr>toolUseId = tool_use_id, status = ''success'',
                        content = [Text (''Reservation created with booking id: '' @ booking_id)]\<rparr>,
                   s')
              | (Inl e, s') \<Rightarrow>
                  (Inr \<lparr>toolUseId = tool_use_id, status = ''error'', content = [Text e]\<rparr>, s')))"

subsection \<open>The store\<close>

text \<open>
  The managed store behind the table handle, as its interface documents it: a table of
  records under the compound key (\<^verbatim>\<open>booking_id\<close>, \<^verbatim>\<open>restaurant_name\<close>), both
  strings. \<^verbatim>\<open>GetItem\<close> answers with the record under the key, or with no
  \<^verbatim>\<open>Item\<close> entry when there is none; \<^verbatim>\<open>PutItem\<close> stores the record under its key
  and replaces a record already there; \<^verbatim>\<open>DeleteItem\<close> without a condition is
  idempotent: it answers with HTTP status 200 whether or not a record was under the
  key. A request that lacks a key attribute is refused. Every other reason for which
  the service refuses a request (the network, permissions, throttling, its validation
  of values) is the argument \<open>faults\<close>: the text of the exception for a request that
  is refused, \<open>None\<close> for one that is served. A refused request changes nothing.
  A number is read back with the value that was written (the client returns it as a
  decimal, equal to the integer).
\<close>

datatype request = GetItem item | PutItem item | DeleteItem item

type_synonym rows = "string \<times> string \<rightharpoonup> item"

definition key_of :: "item \<Rightarrow> (string \<times> string) option" where
  "key_of it =
     (case it ''booking_id'' of
        Some (S b) \<Rightarrow>
          (case it ''restaurant_name'' of
             Some (S r) \<Rightarrow> Some (b, r)
           | _ \<Rightarrow> None)
      | _ \<Rightarrow> None)"

definition ValidationException :: exn where
  "ValidationException = ''The provided key element does not match the schema''"

definition dynamodb_get_item :: "(request \<Rightarrow> exn option) \<Rightarrow> item \<Rightarrow> rows \<Rightarrow> exn + GetItemOutput" where
  "dynamodb_get_item faults k t =
     (case faults (GetItem k) of
        Some e \<Rightarrow> Inl e
      | None \<Rightarrow>
          (case key_of k of
             None \<Rightarrow> Inl ValidationException
           | Some key \<Rightarrow> Inr \<lparr>Item = t key\<rparr>))"

definition dynamodb_put_item :: "(request \<Rightarrow> exn option) \<Rightarrow> item \<Rightarrow> rows \<Rightarrow> (exn + unit) \<times> rows" where
  "dynamodb_put_item faults it t =
     (case faults (PutItem it) of
        Some e \<Rightarrow> (Inl e, t)
      | None \<Rightarrow>
          (case key_of it of
             None \<Rightarrow> (Inl ValidationException, t)
           | Some key \<Rightarrow> (Inr (), t(key \<mapsto> it))))"

definition dynamodb_delete_item ::
  "(request \<Rightarrow> exn option) \<Rightarrow> item \<Rightarrow> rows \<Rightarrow> (exn + DeleteItemOutput) \<times> rows" where
  "dynamodb_delete_item faults k t =
     (case faults (DeleteItem k) of
        Some e \<Rightarrow> (Inl e, t)
      | None \<Rightarrow>
          (case key_of k of
             None \<Rightarrow> (Inl ValidationException, t)
           | Some key \<Rightarrow> (Inr \<lparr>HTTPStatusCode = 200\<rparr>, t(key := None))))"

definition dynamodb_Table :: "(request \<Rightarrow> exn option) \<Rightarrow> rows Table" where
  "dynamodb_Table faults =
     \<lparr>get_item = dynamodb_get_item faults,
      put_item = dynamodb_put_item faults,
      delete_item = dynamodb_delete_item faults\<rparr>"

text \<open>The service when it refuses nothing.\<close>

definition no_faults :: "request \<Rightarrow> exn option" where
  "no_faults rq = None"

subsection \<open>The streaming endpoint\<close>

text \<open>
  An event of the agent's stream is a dictionary; the endpoint reads its entry
  \<^verbatim>\<open>"data"\<close> only. The stream of one invocation is a finite sequence of steps: it
  yields an event (\<open>Inr\<close>) or raises (\<open>Inl\<close>), and a generator that has raised is
  finished.
\<close>

datatype json = JString string | JBool bool | JDict "(string \<times> json) list"

type_synonym event = "string \<rightharpoonup> json"

text \<open>
  \<^verbatim>\<open>
  @app.post("/stream")
  async def stream_response(request: PromptRequest):
      async def generate():
          agent = Agent(tools=[calculator, weather_forecast], callback_handler=None)
          try:
              async for event in agent.stream_async(request.prompt):
                  if "data" in event:
                      yield event["data"]
          except Exception as e:
              yield f"Error: {str(e)}"

      return StreamingResponse(generate(), media_type="text/plain")
  \<close>
  \<open>generate\<close> is the loop under \<^verbatim>\<open>try\<close>, on the steps of
  \<^verbatim>\<open>agent.stream_async(request.prompt)\<close>; its result is the sequence of chunks it
  yields. The response object is built before the generator runs, with the status
  that the framework gives a response constructed without one, 200.
\<close>

fun generate :: "(exn + event) list \<Rightarrow> json list" where
  "generate [] = []"
| "generate (Inr event # stream) =
     (case event ''data'' of
        Some data \<Rightarrow> data # generate stream
      | None \<Rightarrow> generate stream)"
| "generate (Inl e # stream) = [JString (''Error: '' @ e)]"

record PromptRequest =
  prompt :: string

record StreamingResponse =
  body :: "json list"
  status_code :: int
  media_type :: string

definition stream_response ::
  "(string \<Rightarrow> (exn + event) list) \<Rightarrow> PromptRequest \<Rightarrow> StreamingResponse" where
  "stream_response stream_async request =
     \<lparr>body = generate (stream_async (prompt request)),
      status_code = 200,
      media_type = ''text/plain''\<rparr>"

subsection \<open>Concrete inputs\<close>

text \<open>
  The scenario of the specification: a booking at the restaurant Rice & Spice on 2025-12-01 at
  20:00 for Anna and three more guests; a version-4 UUID that prints as
  \<^verbatim>\<open>deadbeef-0000-4000-8000-000000000000\<close>; a table that holds one earlier booking
  under the identifier \<^verbatim>\<open>deadbeef\<close>; a service that refuses every request with a
  given exception; and a table handle whose \<^verbatim>\<open>delete_item\<close> completes with a given
  HTTP status.
\<close>

definition example_input :: ToolInput where
  "example_input =
     \<lparr>date = ''2025-12-01'', hour = ''20:00'', restaurant_name = ''Rice & Spice'',
      guest_name = ''Anna'', num_guests = 4\<rparr>"

definition example_tool :: ToolUse where
  "example_tool = \<lparr>ToolUse.toolUseId = ''tooluse_1'', input = example_input\<rparr>"

definition example_uuid :: "128 word" where
  "example_uuid = 0xdeadbeef000040008000000000000000"

definition earlier_input :: ToolInput where
  "earlier_input =
     \<lparr>date = ''2025-11-30'', hour = ''19:30'', restaurant_name = ''Rice & Spice'',
      guest_name = ''Bob'', num_guests = 2\<rparr>"

definition example_rows :: rows where
  "example_rows = [(''deadbeef'', ''Rice & Spice'') \<mapsto> new_item ''deadbeef'' earlier_input]"

text \<open>The table with no record.\<close>

definition no_rows :: rows where
  "no_rows = Map.empty"

definition refusing :: "exn \<Rightarrow> request \<Rightarrow> exn option" where
  "refusing e rq = Some e"

definition Table_answering :: "int \<Rightarrow> rows Table" where
  "Table_answering code =
     \<lparr>get_item = dynamodb_get_item no_faults,
      put_item = dynamodb_put_item no_faults,
      delete_item = (\<lambda>k t. (Inr \<lparr>HTTPStatusCode = code\<rparr>, t))\<rparr>"

text \<open>
  A stream of four events, two of them with text; a request; and an agent whose stream
  is a given sequence of steps whatever the prompt.
\<close>

definition example_events :: "event list" where
  "example_events =
     [[''init_event_loop'' \<mapsto> JBool True],
      [''data'' \<mapsto> JString ''Sunny'', ''delta'' \<mapsto> JDict [(''text'', JString ''Sunny'')]],
      [''current_tool_use'' \<mapsto> JDict [(''name'', JString ''weather_forecast'')]],
      [''data'' \<mapsto> JString '' in NYC'']]"

definition example_request :: PromptRequest where
  "example_request = \<lparr>prompt = ''What is weather in NYC?''\<rparr>"

definition yielding :: "(exn + event) list \<Rightarrow> string \<Rightarrow> (exn + event) list" where
  "yielding steps p = steps"

section \<open>Properties\<close>

subsection \<open>Auxiliary facts\<close>

lemma length_hex32: "length (hex32 u) = 32"
  by (simp add: hex32_def)

lemma take_8_str_UUID: "take 8 (str_UUID u) = take 8 (hex32 u)"
  by (simp add: str_UUID_def Let_def length_hex32)

lemma length_booking_id: "length (take 8 (str_UUID u)) = 8"
  by (simp add: take_8_str_UUID length_hex32)

lemma length_str_UUID: "length (str_UUID u) = 36"
  by (simp add: str_UUID_def Let_def length_hex32)

lemma example_booking_id: "take 8 (str_UUID example_uuid) = ''deadbeef''"
  by (simp add: example_uuid_def str_UUID_def hex32_def hexdigit_def upt_rec)

lemma key_of_Key: "key_of (Key b r) = Some (b, r)"
  by (simp add: key_of_def Key_def)

lemma key_of_new_item: "key_of (new_item b inp) = Some (b, restaurant_name inp)"
  by (simp add: key_of_def new_item_def)

lemma get_item_dynamodb:
  "faults (GetItem (Key b r)) = None \<Longrightarrow>
   get_item (dynamodb_Table faults) (Key b r) t = Inr \<lparr>Item = t (b, r)\<rparr>"
  by (simp add: dynamodb_Table_def dynamodb_get_item_def key_of_Key)

lemma put_item_dynamodb:
  "faults (PutItem (new_item b inp)) = None \<Longrightarrow>
   put_item (dynamodb_Table faults) (new_item b inp) t =
     (Inr (), t((b, restaurant_name inp) \<mapsto> new_item b inp))"
  by (simp add: dynamodb_Table_def dynamodb_put_item_def key_of_new_item)

lemma delete_item_dynamodb:
  "faults (DeleteItem (Key b r)) = None \<Longrightarrow>
   delete_item (dynamodb_Table faults) (Key b r) t =
     (Inr \<lparr>HTTPStatusCode = 200\<rparr>, t((b, r) := None))"
  by (simp add: dynamodb_Table_def dynamodb_delete_item_def key_of_Key)

lemma get_booking_details_dynamodb:
  "faults (GetItem (Key b r)) = None \<Longrightarrow>
   get_booking_details (dynamodb_Table faults) b r t =
     (case t (b, r) of Some it \<Rightarrow> Dict it | None \<Rightarrow> Str (''No booking found with ID '' @ b))"
  by (simp add: get_booking_details_def get_item_dynamodb)

subsection \<open>Looking a booking up\<close>

text \<open>
  C3. \<open>get_booking_details\<close> on the pair (booking identifier, restaurant name): when the
  store holds a record under that compound key and serves the request, the record
  itself is returned; when it holds none, the message
  \<^verbatim>\<open>No booking found with ID <id>\<close> is returned, as a value and not as a fault;
  and when the \<^verbatim>\<open>get_item\<close> call of any table handle raises, the text of the
  exception is returned and nothing is propagated.
\<close>

theorem get_booking_details_outcomes:
  "(faults (GetItem (Key bid rn)) = None \<and>
    t (bid, rn) = Some it \<longrightarrow>
      get_booking_details (dynamodb_Table faults) bid rn t = Dict it) \<and>
   (faults (GetItem (Key bid rn)) = None \<and>
    t (bid, rn) = None \<longrightarrow>
      get_booking_details (dynamodb_Table faults) bid rn t =
        Str (''No booking found with ID '' @ bid)) \<and>
   (get_item table (Key bid rn) s = Inl e \<longrightarrow>
      get_booking_details table bid rn s = Str e)"
  by (simp add: get_booking_details_dynamodb) (simp add: get_booking_details_def)

theorem get_booking_details_outcomes_witness:
  "get_booking_details (dynamodb_Table no_faults) ''deadbeef'' ''Rice & Spice'' example_rows =
     Dict (new_item ''deadbeef'' earlier_input) \<and>
   get_booking_details (dynamodb_Table no_faults) ''0badcafe'' ''Rice & Spice'' example_rows =
     Str ''No booking found with ID 0badcafe'' \<and>
   get_booking_details (dynamodb_Table (refusing ''AccessDeniedException'')) ''deadbeef''
     ''Rice & Spice'' example_rows = Str ''AccessDeniedException''"
proof -
  have present: "no_faults (GetItem (Key ''deadbeef'' ''Rice & Spice'')) = None \<and>
      example_rows (''deadbeef'', ''Rice & Spice'') = Some (new_item ''deadbeef'' earlier_input)"
    by (simp add: no_faults_def example_rows_def)
  have absent: "no_faults (GetItem (Key ''0badcafe'' ''Rice & Spice'')) = None \<and>
      example_rows (''0badcafe'', ''Rice & Spice'') = None"
    by (simp add: no_faults_def example_rows_def)
  have raises: "get_item (dynamodb_Table (refusing ''AccessDeniedException''))
      (Key ''deadbeef'' ''Rice & Spice'') example_rows = Inl ''AccessDeniedException''"
    by (simp add: dynamodb_Table_def dynamodb_get_item_def refusing_def)
  have "get_booking_details (dynamodb_Table no_faults) ''deadbeef'' ''Rice & Spice'' example_rows =
      Dict (new_item ''deadbeef'' earlier_input)"
    using present
      get_booking_details_outcomes [where faults = no_faults and bid = "''deadbeef''"
        and rn = "''Rice & Spice''" and t = example_rows
        and it = "new_item ''deadbeef'' earlier_input", THEN conjunct1]
    by simp
  moreover
  have "get_booking_details (dynamodb_Table no_faults) ''0badcafe'' ''Rice & Spice'' example_rows =
      Str ''No booking found with ID 0badcafe''"
    using absent
      get_booking_details_outcomes [where faults = no_faults and bid = "''0badcafe''"
        and rn = "''Rice & Spice''" and t = example_rows, THEN conjunct2, THEN conjunct1]
    by simp
  moreover
  have "get_booking_details (dynamodb_Table (refusing ''AccessDeniedException'')) ''deadbeef''
      ''Rice & Spice'' example_rows = Str ''AccessDeniedException''"
    using raises
      get_booking_details_outcomes [where bid = "''deadbeef''" and rn = "''Rice & Spice''"
        and table = "dynamodb_Table (refusing ''AccessDeniedException'')"
        and s = example_rows and e = "''AccessDeniedException''", THEN conjunct2, THEN conjunct2]
    by simp
  ultimately show ?thesis by simp
qed

text \<open>
  C10. \<open>get_booking_details\<close> is declared to return a dictionary, and returns a string
  whenever the response has no \<^verbatim>\<open>Item\<close> entry or the call raises; it returns a
  dictionary in the one case that the response has an \<^verbatim>\<open>Item\<close> entry.
\<close>

theorem get_booking_details_dict_only_for_item:
  "(get_item table (Key bid rn) s = Inr response \<and> Item response = None \<longrightarrow>
      (\<exists>msg. get_booking_details table bid rn s = Str msg)) \<and>
   (get_item table (Key bid rn) s = Inl e \<longrightarrow>
      (\<exists>msg. get_booking_details table bid rn s = Str msg)) \<and>
   ((\<exists>it. get_booking_details table bid rn s = Dict it) =
    (\<exists>r it. get_item table (Key bid rn) s = Inr r \<and> Item r = Some it))"
  by (cases "get_item table (Key bid rn) s")
     (auto simp: get_booking_details_def split: option.splits)

theorem get_booking_details_dict_only_for_item_witness:
  "(\<exists>msg. get_booking_details (dynamodb_Table no_faults) ''0badcafe'' ''Rice & Spice''
      example_rows = Str msg) \<and>
   (\<exists>msg. get_booking_details (dynamodb_Table (refusing ''AccessDeniedException''))
      ''deadbeef'' ''Rice & Spice'' example_rows = Str msg) \<and>
   (\<exists>it. get_booking_details (dynamodb_Table no_faults) ''deadbeef'' ''Rice & Spice''
      example_rows = Dict it)"
proof -
  have absent: "get_item (dynamodb_Table no_faults) (Key ''0badcafe'' ''Rice & Spice'') example_rows =
      Inr \<lparr>Item = None\<rparr> \<and> Item \<lparr>Item = None\<rparr> = None"
    by (simp add: get_item_dynamodb no_faults_def example_rows_def)
  have raises: "get_item (dynamodb_Table (refusing ''AccessDeniedException''))
      (Key ''deadbeef'' ''Rice & Spice'') example_rows = Inl ''AccessDeniedException''"
    by (simp add: dynamodb_Table_def dynamodb_get_item_def refusing_def)
  have present: "\<exists>r it. get_item (dynamodb_Table no_faults) (Key ''deadbeef'' ''Rice & Spice'')
      example_rows = Inr r \<and> Item r = Some it"
    by (simp add: get_item_dynamodb no_faults_def example_rows_def)
  have "\<exists>msg. get_booking_details (dynamodb_Table no_faults) ''0badcafe'' ''Rice & Spice''
      example_rows = Str msg"
    using absent
      get_booking_details_dict_only_for_item [where table = "dynamodb_Table no_faults"
        and bid = "''0badcafe''" and rn = "''Rice & Spice''" and s = example_rows
        and response = "\<lparr>Item = None\<rparr>", THEN conjunct1]
    by simp
  moreover
  have "\<exists>msg. get_booking_details (dynamodb_Table (refusing ''AccessDeniedException''))
      ''deadbeef'' ''Rice & Spice'' example_rows = Str msg"
    using raises
      get_booking_details_dict_only_for_item
        [where table = "dynamodb_Table (refusing ''AccessDeniedException'')"
        and bid = "''deadbeef''" and rn = "''Rice & Spice''" and s = example_rows
        and e = "''AccessDeniedException''", THEN conjunct2, THEN conjunct1]
    by simp
  moreover
  have "\<exists>it. get_booking_details (dynamodb_Table no_faults) ''deadbeef'' ''Rice & Spice''
      example_rows = Dict it"
    using present
      get_booking_details_dict_only_for_item [where table = "dynamodb_Table no_faults"
        and bid = "''deadbeef''" and rn = "''Rice & Spice''" and s = example_rows,
        THEN conjunct2, THEN conjunct2]
    by simp
  ultimately show ?thesis by simp
qed

subsection \<open>The streaming endpoint\<close>

text \<open>
  C5. For every sequence of events that the agent's stream yields, the body of the
  endpoint's response is the \<^verbatim>\<open>"data"\<close> entries of exactly the events that have
  one, in the order of the events; an event without a \<^verbatim>\<open>"data"\<close> entry (a
  tool-selection notice, a lifecycle marker) contributes nothing.
\<close>

theorem stream_response_forwards_text_events:
  "stream_async (prompt request) = map Inr events \<Longrightarrow>
   body (stream_response stream_async request) =
     map (\<lambda>event. the (event ''data'')) (filter (\<lambda>event. ''data'' \<in> dom event) events)"
  unfolding stream_response_def
  by (induction events arbitrary: stream_async) (auto split: option.splits)

theorem stream_response_forwards_text_events_witness:
  "body (stream_response (yielding (map Inr example_events)) example_request) =
     [JString ''Sunny'', JString '' in NYC'']"
proof -
  have h: "yielding (map Inr example_events) (prompt example_request) = map Inr example_events"
    by (simp add: yielding_def)
  show ?thesis
    using h stream_response_forwards_text_events
      [where stream_async = "yielding (map Inr example_events)" and request = example_request
        and events = example_events]
    by (simp add: example_events_def dom_def)
qed

text \<open>
  C6. When the agent's stream raises after any number of events, the exception is
  caught: the body of the response is the text forwarded so far followed by one last
  chunk, \<^verbatim>\<open>Error: \<close> and the text of the exception, and the steps after it are
  not read. The status of the response is 200 all the same: the fault is never turned
  into an HTTP error status.
\<close>

theorem stream_response_fault_is_final_chunk:
  "stream_async (prompt request) = map Inr events @ Inl e # rest \<Longrightarrow>
   body (stream_response stream_async request) =
     map (\<lambda>event. the (event ''data'')) (filter (\<lambda>event. ''data'' \<in> dom event) events)
       @ [JString (''Error: '' @ e)] \<and>
   status_code (stream_response stream_async request) = 200"
  unfolding stream_response_def
  by (induction events arbitrary: stream_async) (auto split: option.splits)

theorem stream_response_fault_is_final_chunk_witness:
  "body (stream_response
      (yielding (map Inr example_events @ Inl ''Read timed out'' # map Inr example_events))
      example_request) =
     [JString ''Sunny'', JString '' in NYC'', JString ''Error: Read timed out''] \<and>
   status_code (stream_response
      (yielding (map Inr example_events @ Inl ''Read timed out'' # map Inr example_events))
      example_request) = 200"
proof -
  have h: "yielding (map Inr example_events @ Inl ''Read timed out'' # map Inr example_events)
      (prompt example_request) =
      map Inr example_events @ Inl ''Read timed out'' # map Inr example_events"
    by (simp add: yielding_def)
  show ?thesis
    using h stream_response_fault_is_final_chunk
      [where stream_async =
          "yielding (map Inr example_events @ Inl ''Read timed out'' # map Inr example_events)"
        and request = example_request and events = example_events and e = "''Read timed out''"
        and rest = "map Inr example_events"]
    by (simp add: example_events_def dom_def)
qed

subsection \<open>Deleting a booking\<close>

text \<open>
  C7. When the \<^verbatim>\<open>delete_item\<close> call completes, \<open>delete_booking\<close> returns the success
  message exactly when the response's HTTP status is 200 and the failure message
  exactly when it is not; when the call raises, the exception is caught and its text
  is returned as the result.
\<close>

theorem delete_booking_by_status:
  "(delete_item table (Key bid rn) s = (Inr response, s') \<longrightarrow>
      ((fst (delete_booking (Inr table) bid rn s) =
          Inr (''Booking with ID '' @ bid @ '' deleted successfully'')) =
       (HTTPStatusCode response = 200)) \<and>
      ((fst (delete_booking (Inr table) bid rn s) =
          Inr (''Failed to delete booking with ID '' @ bid)) =
       (HTTPStatusCode response \<noteq> 200))) \<and>
   (delete_item table (Key bid rn) s = (Inl e, s') \<longrightarrow>
      delete_booking (Inr table) bid rn s = (Inr e, s'))"
  by (simp add: delete_booking_def)

theorem delete_booking_by_status_witness:
  "fst (delete_booking (Inr (dynamodb_Table no_faults)) ''deadbeef'' ''Rice & Spice'' example_rows) =
     Inr ''Booking with ID deadbeef deleted successfully'' \<and>
   fst (delete_booking (Inr (Table_answering 503)) ''deadbeef'' ''Rice & Spice'' example_rows) =
     Inr ''Failed to delete booking with ID deadbeef'' \<and>
   delete_booking (Inr (dynamodb_Table (refusing ''AccessDeniedException''))) ''deadbeef''
     ''Rice & Spice'' example_rows = (Inr ''AccessDeniedException'', example_rows)"
proof -
  have ok: "delete_item (dynamodb_Table no_faults) (Key ''deadbeef'' ''Rice & Spice'') example_rows =
      (Inr \<lparr>HTTPStatusCode = 200\<rparr>, example_rows((''deadbeef'', ''Rice & Spice'') := None))"
    by (simp add: delete_item_dynamodb no_faults_def)
  have bad: "delete_item (Table_answering 503) (Key ''deadbeef'' ''Rice & Spice'') example_rows =
      (Inr \<lparr>HTTPStatusCode = 503\<rparr>, example_rows)"
    by (simp add: Table_answering_def)
  have raises: "delete_item (dynamodb_Table (refusing ''AccessDeniedException''))
      (Key ''deadbeef'' ''Rice & Spice'') example_rows = (Inl ''AccessDeniedException'', example_rows)"
    by (simp add: dynamodb_Table_def dynamodb_delete_item_def refusing_def)
  have "fst (delete_booking (Inr (dynamodb_Table no_faults)) ''deadbeef'' ''Rice & Spice'' example_rows) =
      Inr ''Booking with ID deadbeef deleted successfully''"
    using ok
      delete_booking_by_status [where table = "dynamodb_Table no_faults" and bid = "''deadbeef''"
        and rn = "''Rice & Spice''" and s = example_rows and response = "\<lparr>HTTPStatusCode = 200\<rparr>"
        and s' = "example_rows((''deadbeef'', ''Rice & Spice'') := None)", THEN conjunct1]
    by simp
  moreover
  have "fst (delete_booking (Inr (Table_answering 503)) ''deadbeef'' ''Rice & Spice'' example_rows) =
      Inr ''Failed to delete booking with ID deadbeef''"
    using bad
      delete_booking_by_status [where table = "Table_answering 503" and bid = "''deadbeef''"
        and rn = "''Rice & Spice''" and s = example_rows and response = "\<lparr>HTTPStatusCode = 503\<rparr>"
        and s' = example_rows, THEN conjunct1]
    by simp
  moreover
  have "delete_booking (Inr (dynamodb_Table (refusing ''AccessDeniedException''))) ''deadbeef''
      ''Rice & Spice'' example_rows = (Inr ''AccessDeniedException'', example_rows)"
    using raises
      delete_booking_by_status [where table = "dynamodb_Table (refusing ''AccessDeniedException'')"
        and bid = "''deadbeef''" and rn = "''Rice & Spice''" and s = example_rows
        and e = "''AccessDeniedException''" and s' = example_rows, THEN conjunct2]
    by simp
  ultimately show ?thesis by simp
qed

text \<open>
  Deleting a pair that the store does not hold is reported as a success, not as a
  failure: the store answers a delete of an absent key with status 200, and the status
  is all that \<open>delete_booking\<close> looks at. Here the table holds the booking
  \<^verbatim>\<open>deadbeef\<close> and none under \<^verbatim>\<open>0badcafe\<close>.
\<close>

theorem delete_booking_absent_reports_success:
  "example_rows (''0badcafe'', ''Rice & Spice'') = None \<and>
   delete_booking (Inr (dynamodb_Table no_faults)) ''0badcafe'' ''Rice & Spice'' example_rows =
     (Inr ''Booking with ID 0badcafe deleted successfully'', example_rows) \<and>
   fst (delete_booking (Inr (dynamodb_Table no_faults)) ''0badcafe'' ''Rice & Spice'' example_rows) \<noteq>
     Inr ''Failed to delete booking with ID 0badcafe''"
  by (simp add: delete_booking_def delete_item_dynamodb no_faults_def example_rows_def)

text \<open>
  C2, as the code has it. Once the table handle is obtained, \<open>delete_booking\<close> returns
  a string and never raises, whatever the table does. When the store serves the
  requests, deleting a pair removes the record under it, so that a lookup of the same
  pair afterwards reports that no booking was found; the message returned is the
  success message, for a pair that the store held and for one that it did not.
\<close>

theorem delete_booking_then_lookup:
  "\<not> isl (fst (delete_booking (Inr table) bid rn s)) \<and>
   (faults (DeleteItem (Key bid rn)) = None \<and> faults (GetItem (Key bid rn)) = None \<longrightarrow>
      delete_booking (Inr (dynamodb_Table faults)) bid rn t =
        (Inr (''Booking with ID '' @ bid @ '' deleted successfully''), t((bid, rn) := None)) \<and>
      get_booking_details (dynamodb_Table faults) bid rn (t((bid, rn) := None)) =
        Str (''No booking found with ID '' @ bid))"
  by (simp add: delete_booking_def delete_item_dynamodb get_booking_details_dynamodb
      split: prod.splits sum.splits)

theorem delete_booking_then_lookup_witness:
  "example_rows (''deadbeef'', ''Rice & Spice'') = Some (new_item ''deadbeef'' earlier_input) \<and>
   delete_booking (Inr (dynamodb_Table no_faults)) ''deadbeef'' ''Rice & Spice'' example_rows =
     (Inr ''Booking with ID deadbeef deleted successfully'',
      example_rows((''deadbeef'', ''Rice & Spice'') := None)) \<and>
   get_booking_details (dynamodb_Table no_faults) ''deadbeef'' ''Rice & Spice''
     (example_rows((''deadbeef'', ''Rice & Spice'') := None)) =
     Str ''No booking found with ID deadbeef''"
proof -
  have served: "no_faults (DeleteItem (Key ''deadbeef'' ''Rice & Spice'')) = None \<and>
      no_faults (GetItem (Key ''deadbeef'' ''Rice & Spice'')) = None"
    by (simp add: no_faults_def)
  have held: "example_rows (''deadbeef'', ''Rice & Spice'') =
      Some (new_item ''deadbeef'' earlier_input)"
    by (simp add: example_rows_def)
  have "delete_booking (Inr (dynamodb_Table no_faults)) ''deadbeef'' ''Rice & Spice'' example_rows =
     (Inr ''Booking with ID deadbeef deleted successfully'',
      example_rows((''deadbeef'', ''Rice & Spice'') := None)) \<and>
   get_booking_details (dynamodb_Table no_faults) ''deadbeef'' ''Rice & Spice''
     (example_rows((''deadbeef'', ''Rice & Spice'') := None)) =
     Str ''No booking found with ID deadbeef''"
    using served
      delete_booking_then_lookup [where faults = no_faults and bid = "''deadbeef''"
        and rn = "''Rice & Spice''" and t = example_rows, THEN conjunct2]
    by simp
  then show ?thesis
    using held by simp
qed

subsection \<open>Creating a booking\<close>

text \<open>
  C8. Whenever \<open>create_booking\<close> returns a result with status \<^verbatim>\<open>success\<close>, the text of
  the result ends with the generated booking identifier, that identifier is exactly
  8 characters long, and it is the identifier of the record that was written.
\<close>

theorem create_booking_success_has_id:
  "fst (create_booking handle uuid4 tool s) = Inr result \<Longrightarrow>
   status result = ''success'' \<Longrightarrow>
   content result =
     [Text (''Reservation created with booking id: '' @ take 8 (str_UUID uuid4))] \<and>
   length (take 8 (str_UUID uuid4)) = 8 \<and>
   (case handle of
      Inr table \<Rightarrow>
        fst (put_item table (new_item (take 8 (str_UUID uuid4)) (input tool)) s) = Inr ()
    | Inl e \<Rightarrow> False)"
  by (auto simp: create_booking_def Let_def length_str_UUID split: prod.splits sum.splits)

theorem create_booking_success_has_id_witness:
  "fst (create_booking (Inr (dynamodb_Table no_faults)) example_uuid example_tool example_rows) =
     Inr \<lparr>toolUseId = ''tooluse_1'', status = ''success'',
          content = [Text ''Reservation created with booking id: deadbeef'']\<rparr> \<and>
   length ''deadbeef'' = 8"
proof -
  have r: "fst (create_booking (Inr (dynamodb_Table no_faults)) example_uuid example_tool example_rows) =
     Inr \<lparr>toolUseId = ''tooluse_1'', status = ''success'',
          content = [Text ''Reservation created with booking id: deadbeef'']\<rparr>"
    by (simp add: create_booking_def Let_def example_booking_id put_item_dynamodb no_faults_def
        example_tool_def)
  have s: "status \<lparr>toolUseId = ''tooluse_1'', status = ''success'',
          content = [Text ''Reservation created with booking id: deadbeef'']\<rparr> = ''success''"
    by simp
  show ?thesis
    using r create_booking_success_has_id [OF r s]
    by (simp add: example_booking_id)
qed

text \<open>
  The identifier is not checked against the store. Here the table already holds a
  booking under \<^verbatim>\<open>deadbeef\<close> at the same restaurant, the UUID drawn starts with
  the same eight digits, and \<open>create_booking\<close> reports success and replaces the
  earlier record.
\<close>

theorem create_booking_identifier_not_fresh:
  "take 8 (str_UUID example_uuid) = ''deadbeef'' \<and>
   example_rows (''deadbeef'', ''Rice & Spice'') = Some (new_item ''deadbeef'' earlier_input) \<and>
   create_booking (Inr (dynamodb_Table no_faults)) example_uuid example_tool example_rows =
     (Inr \<lparr>toolUseId = ''tooluse_1'', status = ''success'',
           content = [Text ''Reservation created with booking id: deadbeef'']\<rparr>,
      [(''deadbeef'', ''Rice & Spice'') \<mapsto> new_item ''deadbeef'' example_input])"
  by (simp add: create_booking_def Let_def example_booking_id put_item_dynamodb no_faults_def
      example_tool_def example_rows_def example_input_def)

text \<open>
  C1, as the code has it. For every input and every UUID drawn, when the table handle
  is obtained and the store serves the two requests, \<open>create_booking\<close> reports
  success with the identifier made of the first eight characters of the UUID, writes
  the record under the compound key (that identifier, restaurant name), and a lookup
  of that pair afterwards returns a record that carries the five values supplied.
  Nothing is claimed about the identifier being new to the store.
\<close>

theorem create_booking_roundtrip:
  "faults (PutItem (new_item (take 8 (str_UUID uuid4)) (input tool))) = None \<Longrightarrow>
   faults (GetItem (Key (take 8 (str_UUID uuid4)) (restaurant_name (input tool)))) = None \<Longrightarrow>
   (let booking_id = take 8 (str_UUID uuid4);
        table = dynamodb_Table faults;
        (result, t') = create_booking (Inr table) uuid4 tool t
    in result = Inr \<lparr>toolUseId = ToolUse.toolUseId tool, status = ''success'',
                    content = [Text (''Reservation created with booking id: '' @ booking_id)]\<rparr> \<and>
       t' = t((booking_id, restaurant_name (input tool)) \<mapsto> new_item booking_id (input tool)) \<and>
       (case get_booking_details table booking_id (restaurant_name (input tool)) t' of
          Dict it \<Rightarrow>
            it ''date'' = Some (S (date (input tool))) \<and>
            it ''hour'' = Some (S (hour (input tool))) \<and>
            it ''restaurant_name'' = Some (S (restaurant_name (input tool))) \<and>
            it ''name'' = Some (S (guest_name (input tool))) \<and>
            it ''num_guests'' = Some (N (num_guests (input tool))) \<and>
            it ''booking_id'' = Some (S booking_id)
        | Str msg \<Rightarrow> False))"
  by (simp add: create_booking_def Let_def put_item_dynamodb get_booking_details_dynamodb)
     (simp add: new_item_def)

theorem create_booking_roundtrip_witness:
  "create_booking (Inr (dynamodb_Table no_faults)) example_uuid example_tool no_rows =
     (Inr \<lparr>toolUseId = ''tooluse_1'', status = ''success'',
           content = [Text ''Reservation created with booking id: deadbeef'']\<rparr>,
      [(''deadbeef'', ''Rice & Spice'') \<mapsto> new_item ''deadbeef'' example_input]) \<and>
   get_booking_details (dynamodb_Table no_faults) ''deadbeef'' ''Rice & Spice''
     [(''deadbeef'', ''Rice & Spice'') \<mapsto> new_item ''deadbeef'' example_input] =
     Dict [''booking_id'' \<mapsto> S ''deadbeef'', ''restaurant_name'' \<mapsto> S ''Rice & Spice'',
           ''date'' \<mapsto> S ''2025-12-01'', ''name'' \<mapsto> S ''Anna'', ''hour'' \<mapsto> S ''20:00'',
           ''num_guests'' \<mapsto> N 4]"
proof -
  have put: "no_faults (PutItem (new_item (take 8 (str_UUID example_uuid)) (input example_tool))) = None"
    by (simp add: no_faults_def)
  have get: "no_faults (GetItem (Key (take 8 (str_UUID example_uuid))
      (restaurant_name (input example_tool)))) = None"
    by (simp add: no_faults_def)
  have "create_booking (Inr (dynamodb_Table no_faults)) example_uuid example_tool no_rows =
     (Inr \<lparr>toolUseId = ''tooluse_1'', status = ''success'',
           content = [Text ''Reservation created with booking id: deadbeef'']\<rparr>,
      [(''deadbeef'', ''Rice & Spice'') \<mapsto> new_item ''deadbeef'' example_input])"
    using create_booking_roundtrip [OF put get, of no_rows]
    by (simp add: Let_def example_booking_id example_tool_def example_input_def no_rows_def
        split: prod.splits)
  moreover
  have "get_booking_details (dynamodb_Table no_faults) ''deadbeef'' ''Rice & Spice''
     [(''deadbeef'', ''Rice & Spice'') \<mapsto> new_item ''deadbeef'' example_input] =
     Dict [''booking_id'' \<mapsto> S ''deadbeef'', ''restaurant_name'' \<mapsto> S ''Rice & Spice'',
           ''date'' \<mapsto> S ''2025-12-01'', ''name'' \<mapsto> S ''Anna'', ''hour'' \<mapsto> S ''20:00'',
           ''num_guests'' \<mapsto> N 4]"
    by (simp add: get_booking_details_dynamodb no_faults_def new_item_def example_input_def)
  ultimately show ?thesis by simp
qed

text \<open>
  C9. The record that \<open>create_booking\<close> writes, and that a lookup returns afterwards,
  has the guest's name under the attribute \<^verbatim>\<open>name\<close> and has no attribute
  \<^verbatim>\<open>guest_name\<close>; the date, the hour, the restaurant name and the number of guests
  are under the names of the input parameters, and with the booking identifier these
  are all its attributes.
\<close>

theorem create_booking_stores_guest_under_name:
  "faults (PutItem (new_item (take 8 (str_UUID uuid4)) (input tool))) = None \<Longrightarrow>
   faults (GetItem (Key (take 8 (str_UUID uuid4)) (restaurant_name (input tool)))) = None \<Longrightarrow>
   (let booking_id = take 8 (str_UUID uuid4);
        table = dynamodb_Table faults;
        t' = snd (create_booking (Inr table) uuid4 tool t)
    in case get_booking_details table booking_id (restaurant_name (input tool)) t' of
         Dict it \<Rightarrow>
           it ''name'' = Some (S (guest_name (input tool))) \<and>
           it ''guest_name'' = None \<and>
           it ''date'' = Some (S (date (input tool))) \<and>
           it ''hour'' = Some (S (hour (input tool))) \<and>
           it ''restaurant_name'' = Some (S (restaurant_name (input tool))) \<and>
           it ''num_guests'' = Some (N (num_guests (input tool))) \<and>
           dom it = {''booking_id'', ''restaurant_name'', ''date'', ''name'', ''hour'', ''num_guests''}
       | Str msg \<Rightarrow> False)"
  by (simp add: create_booking_def Let_def put_item_dynamodb get_booking_details_dynamodb)
     (auto simp: new_item_def)

theorem create_booking_stores_guest_under_name_witness:
  "(case get_booking_details (dynamodb_Table no_faults) ''deadbeef'' ''Rice & Spice''
      (snd (create_booking (Inr (dynamodb_Table no_faults)) example_uuid example_tool no_rows)) of
      Dict it \<Rightarrow> it ''name'' = Some (S ''Anna'') \<and> it ''guest_name'' = None
    | Str msg \<Rightarrow> False)"
proof -
  have put: "no_faults (PutItem (new_item (take 8 (str_UUID example_uuid)) (input example_tool))) = None"
    by (simp add: no_faults_def)
  have get: "no_faults (GetItem (Key (take 8 (str_UUID example_uuid))
      (restaurant_name (input example_tool)))) = None"
    by (simp add: no_faults_def)
  show ?thesis
    using create_booking_stores_guest_under_name [OF put get, of no_rows]
    by (simp add: Let_def example_booking_id example_tool_def example_input_def
        split: booking_details.splits)
qed

subsection \<open>How the three tools report a fault\<close>

text \<open>
  C4. A fault caught in \<open>get_booking_details\<close> or in \<open>delete_booking\<close> becomes the
  returned string, with no tag: a fault whose text is the not-found message gives the
  result of a lookup that found nothing, and a fault whose text is the success message
  gives the result of a delete that succeeded. \<open>create_booking\<close> alone has a separate
  channel: a caught fault gives a result with status \<^verbatim>\<open>error\<close>, a completed write
  one with status \<^verbatim>\<open>success\<close>, and the two results are never equal.
\<close>

theorem fault_channels:
  "(get_item table (Key bid rn) s = Inl e \<longrightarrow>
      get_booking_details table bid rn s = Str e) \<and>
   (get_item table (Key bid rn) s = Inl (''No booking found with ID '' @ bid) \<and>
    get_item table_ok (Key bid rn) s_ok = Inr response \<and> Item response = None \<longrightarrow>
      get_booking_details table bid rn s = get_booking_details table_ok bid rn s_ok) \<and>
   (delete_item table (Key bid rn) s = (Inl e, s') \<longrightarrow>
      fst (delete_booking (Inr table) bid rn s) = Inr e) \<and>
   (delete_item table (Key bid rn) s =
      (Inl (''Booking with ID '' @ bid @ '' deleted successfully''), s') \<and>
    delete_item table_ok (Key bid rn) s_ok = (Inr deleted, s_ok') \<and> HTTPStatusCode deleted = 200 \<longrightarrow>
      fst (delete_booking (Inr table) bid rn s) = fst (delete_booking (Inr table_ok) bid rn s_ok)) \<and>
   (put_item table (new_item (take 8 (str_UUID uuid)) (input tool)) s = (Inl e, s') \<longrightarrow>
      fst (create_booking (Inr table) uuid tool s) =
        Inr \<lparr>toolUseId = ToolUse.toolUseId tool, status = ''error'', content = [Text e]\<rparr>) \<and>
   (put_item table_ok (new_item (take 8 (str_UUID uuid)) (input tool)) s_ok = (Inr (), s_ok') \<longrightarrow>
      fst (create_booking (Inr table_ok) uuid tool s_ok) =
        Inr \<lparr>toolUseId = ToolUse.toolUseId tool, status = ''success'',
             content = [Text (''Reservation created with booking id: '' @ take 8 (str_UUID uuid))]\<rparr>) \<and>
   (put_item table (new_item (take 8 (str_UUID uuid)) (input tool)) s = (Inl e, s') \<and>
    put_item table_ok (new_item (take 8 (str_UUID uuid)) (input tool)) s_ok = (Inr (), s_ok') \<longrightarrow>
      fst (create_booking (Inr table) uuid tool s) \<noteq>
      fst (create_booking (Inr table_ok) uuid tool s_ok))"
  by (simp add: get_booking_details_def delete_booking_def create_booking_def Let_def)

theorem fault_channels_witness:
  "get_booking_details (dynamodb_Table (refusing ''No booking found with ID 0badcafe''))
     ''0badcafe'' ''Rice & Spice'' example_rows =
   get_booking_details (dynamodb_Table no_faults) ''0badcafe'' ''Rice & Spice'' example_rows \<and>
   fst (delete_booking (Inr (dynamodb_Table (refusing ''Booking with ID deadbeef deleted successfully'')))
     ''deadbeef'' ''Rice & Spice'' example_rows) =
   fst (delete_booking (Inr (dynamodb_Table no_faults)) ''deadbeef'' ''Rice & Spice'' example_rows) \<and>
   fst (create_booking (Inr (dynamodb_Table (refusing ''AccessDeniedException''))) example_uuid
     example_tool example_rows) =
     Inr \<lparr>toolUseId = ''tooluse_1'', status = ''error'',
          content = [Text ''AccessDeniedException'']\<rparr> \<and>
   fst (create_booking (Inr (dynamodb_Table no_faults)) example_uuid example_tool example_rows) =
     Inr \<lparr>toolUseId = ''tooluse_1'', status = ''success'',
          content = [Text ''Reservation created with booking id: deadbeef'']\<rparr> \<and>
   fst (create_booking (Inr (dynamodb_Table (refusing ''AccessDeniedException''))) example_uuid
     example_tool example_rows) \<noteq>
   fst (create_booking (Inr (dynamodb_Table no_faults)) example_uuid example_tool example_rows)"
proof -
  note channels = fault_channels
    [where bid = "''0badcafe''" and rn = "''Rice & Spice''"
      and table = "dynamodb_Table (refusing ''No booking found with ID 0badcafe'')"
      and s = example_rows and table_ok = "dynamodb_Table no_faults" and s_ok = example_rows
      and response = "\<lparr>Item = None\<rparr>"]
    fault_channels
    [where bid = "''deadbeef''" and rn = "''Rice & Spice''"
      and table = "dynamodb_Table (refusing ''Booking with ID deadbeef deleted successfully'')"
      and s = example_rows and s' = example_rows
      and table_ok = "dynamodb_Table no_faults" and s_ok = example_rows
      and deleted = "\<lparr>HTTPStatusCode = 200\<rparr>"
      and s_ok' = "example_rows((''deadbeef'', ''Rice & Spice'') := None)"]
    fault_channels
    [where table = "dynamodb_Table (refusing ''AccessDeniedException'')" and s = example_rows
      and s' = example_rows and e = "''AccessDeniedException''"
      and table_ok = "dynamodb_Table no_faults" and s_ok = example_rows
      and s_ok' = "example_rows((''deadbeef'', ''Rice & Spice'') \<mapsto> new_item ''deadbeef'' example_input)"
      and uuid = example_uuid and tool = example_tool]
  have get_raises: "get_item (dynamodb_Table (refusing ''No booking found with ID 0badcafe''))
      (Key ''0badcafe'' ''Rice & Spice'') example_rows = Inl (''No booking found with ID '' @ ''0badcafe'')"
    by (simp add: dynamodb_Table_def dynamodb_get_item_def refusing_def)
  have get_absent: "get_item (dynamodb_Table no_faults) (Key ''0badcafe'' ''Rice & Spice'')
      example_rows = Inr \<lparr>Item = None\<rparr> \<and> Item \<lparr>Item = None\<rparr> = None"
    by (simp add: get_item_dynamodb no_faults_def example_rows_def)
  have delete_raises: "delete_item
      (dynamodb_Table (refusing ''Booking with ID deadbeef deleted successfully''))
      (Key ''deadbeef'' ''Rice & Spice'') example_rows =
      (Inl (''Booking with ID '' @ ''deadbeef'' @ '' deleted successfully''), example_rows)"
    by (simp add: dynamodb_Table_def dynamodb_delete_item_def refusing_def)
  have delete_done: "delete_item (dynamodb_Table no_faults) (Key ''deadbeef'' ''Rice & Spice'')
      example_rows =
      (Inr \<lparr>HTTPStatusCode = 200\<rparr>, example_rows((''deadbeef'', ''Rice & Spice'') := None)) \<and>
      HTTPStatusCode \<lparr>HTTPStatusCode = 200\<rparr> = 200"
    by (simp add: delete_item_dynamodb no_faults_def)
  have put_raises: "put_item (dynamodb_Table (refusing ''AccessDeniedException''))
      (new_item (take 8 (str_UUID example_uuid)) (input example_tool)) example_rows =
      (Inl ''AccessDeniedException'', example_rows)"
    by (simp add: dynamodb_Table_def dynamodb_put_item_def refusing_def)
  have put_done: "put_item (dynamodb_Table no_faults)
      (new_item (take 8 (str_UUID example_uuid)) (input example_tool)) example_rows =
      (Inr (), example_rows((''deadbeef'', ''Rice & Spice'') \<mapsto> new_item ''deadbeef'' example_input))"
    by (simp add: put_item_dynamodb no_faults_def example_booking_id example_tool_def
        example_input_def)
  have "get_booking_details (dynamodb_Table (refusing ''No booking found with ID 0badcafe''))
     ''0badcafe'' ''Rice & Spice'' example_rows =
   get_booking_details (dynamodb_Table no_faults) ''0badcafe'' ''Rice & Spice'' example_rows"
    using get_raises get_absent channels(1) by blast
  moreover
  have "fst (delete_booking (Inr (dynamodb_Table (refusing ''Booking with ID deadbeef deleted successfully'')))
     ''deadbeef'' ''Rice & Spice'' example_rows) =
   fst (delete_booking (Inr (dynamodb_Table no_faults)) ''deadbeef'' ''Rice & Spice'' example_rows)"
    using delete_raises delete_done channels(2) by blast
  moreover
  have "fst (create_booking (Inr (dynamodb_Table (refusing ''AccessDeniedException''))) example_uuid
     example_tool example_rows) =
     Inr \<lparr>toolUseId = ''tooluse_1'', status = ''error'',
          content = [Text ''AccessDeniedException'']\<rparr>"
    using put_raises channels(3) by (simp add: example_tool_def)
  moreover
  have "fst (create_booking (Inr (dynamodb_Table no_faults)) example_uuid example_tool example_rows) =
     Inr \<lparr>toolUseId = ''tooluse_1'', status = ''success'',
          content = [Text ''Reservation created with booking id: deadbeef'']\<rparr>"
    using put_done channels(3) by (simp add: example_tool_def example_booking_id)
  ultimately show ?thesis by simp
qed

end
